theory Spec2Isabelle
  imports Main "HOL-Library.AList"
begin

section \<open>The schedule server: JSON values and the JavaScript operations the handlers use\<close>

text \<open>
  The program is one Express server (\<^verbatim>\<open>server.js\<close>) that keeps a single JSON document in
  the file \<^verbatim>\<open>medical_schedule_data.json\<close>. Every handler reads the whole file, works on
  the parsed value and, when it writes, rewrites the whole file.

  A \<open>json\<close> is a value as \<^verbatim>\<open>JSON.parse\<close> yields it, in a request body or from the
  file. An object is the list of its own properties in the order in which JavaScript
  enumerates them. A number is an integer or one of the two infinities, which
  \<^verbatim>\<open>JSON.parse\<close> yields for a numeral beyond the range of a double such as
  \<^verbatim>\<open>1e400\<close>; the handlers only ever test a number for being zero, and fractions are not
  represented.
\<close>

datatype number = Finite int | PosInfinity | NegInfinity

datatype json =
    JNull
  | JBool bool
  | JNum number
  | JStr string
  | JArr "json list"
  | JObj "(string \<times> json) list"

text \<open>JavaScript truthiness of a value: \<^verbatim>\<open>null\<close>, \<^verbatim>\<open>false\<close>, \<^verbatim>\<open>0\<close> and
  \<^verbatim>\<open>""\<close> are falsy; the infinities, every array and every object are truthy.\<close>

fun truthy :: "json \<Rightarrow> bool" where
  "truthy JNull = False"
| "truthy (JBool b) = b"
| "truthy (JNum x) = (x \<noteq> Finite 0)"
| "truthy (JStr s) = (s \<noteq> [])"
| "truthy (JArr xs) = True"
| "truthy (JObj kvs) = True"

text \<open>
  What \<^verbatim>\<open>JSON.stringify\<close> writes for a value, read back: an infinity is written as
  \<^verbatim>\<open>null\<close>, at any depth; everything else is written as it is, keys in their order.
\<close>

primrec serialise :: "json \<Rightarrow> json" where
  "serialise JNull = JNull"
| "serialise (JBool b) = JBool b"
| "serialise (JNum x) = (case x of Finite n \<Rightarrow> JNum (Finite n) | _ \<Rightarrow> JNull)"
| "serialise (JStr s) = JStr s"
| "serialise (JArr xs) = JArr (map serialise xs)"
| "serialise (JObj kvs) = JObj (map (map_prod id serialise) kvs)"

text \<open>
  What evaluating an expression can do: return a value, throw (every throw in the handlers
  is a \<^verbatim>\<open>TypeError\<close>, caught by the handler's \<^verbatim>\<open>catch\<close>), or leave the part of
  JavaScript that is embedded here (\<open>Beyond\<close>). \<open>Beyond\<close> is returned where the outcome
  depends on a built-in object of the runtime: a member found on a prototype and then
  used as a container or sent in a reply, or a string or an array used as a container
  (the members of \<^verbatim>\<open>String.prototype\<close> and \<^verbatim>\<open>Array.prototype\<close> differ between
  versions of the runtime). A handler that ends in \<open>Beyond\<close> is not described further.
\<close>

datatype 'a run = Returns 'a | Throws | Beyond

fun and_then :: "'a run \<Rightarrow> ('a \<Rightarrow> 'b run) \<Rightarrow> 'b run" where
  "and_then (Returns x) f = f x"
| "and_then Throws f = Throws"
| "and_then Beyond f = Beyond"

text \<open>
  The handlers run in one server process, and what a read finds on the prototype chain
  depends on what earlier requests did to the built-in objects of that process. A request
  such as a \<^verbatim>\<open>POST /api/schedule\<close> with the office \<^verbatim>\<open>__proto__\<close> writes into
  \<^verbatim>\<open>Object.prototype\<close>; from then on every object inherits the member written, reads of
  a key that is not an own property find it, and \<^verbatim>\<open>for\<close>-\<^verbatim>\<open>in\<close> enumerates it. Such a
  request ends in \<open>Beyond\<close>. The runtime is \<open>Pristine\<close> as long as no request has modified a
  built-in object and \<open>Tampered\<close> afterwards. A run that returns or throws has written to
  own properties of parsed values only, so a server is pristine from its start until the
  first request that ends in \<open>Beyond\<close>. On a tampered runtime an own property is read as
  ever, and every read that has to go to the prototype chain is \<open>Beyond\<close>.
\<close>

datatype runtime = Pristine | Tampered

text \<open>
  The result of a property read \<^verbatim>\<open>v[k]\<close> with a key that comes from the request:
  \<^verbatim>\<open>undefined\<close>, an own property, or a member inherited from the prototype chain.
  On a pristine runtime the members of \<^verbatim>\<open>Object.prototype\<close> are eleven functions and
  the accessor \<^verbatim>\<open>__proto__\<close>, which yields the prototype object; all twelve are truthy.
  \<^verbatim>\<open>Boolean.prototype\<close> defines no name beyond those;
  \<^verbatim>\<open>Number.prototype\<close> adds three.
\<close>

datatype lookup = Undefined | Own json | Builtin

fun truthy_lookup :: "lookup \<Rightarrow> bool" where
  "truthy_lookup Undefined = False"
| "truthy_lookup (Own v) = truthy v"
| "truthy_lookup Builtin = True"

definition object_prototype_names :: "string list" where
  "object_prototype_names =
     [''constructor'', ''__defineGetter__'', ''__defineSetter__'', ''hasOwnProperty'',
      ''__lookupGetter__'', ''__lookupSetter__'', ''isPrototypeOf'',
      ''propertyIsEnumerable'', ''toString'', ''valueOf'', ''__proto__'',
      ''toLocaleString'']"

definition number_prototype_names :: "string list" where
  "number_prototype_names = [''toExponential'', ''toFixed'', ''toPrecision'']"

definition inherited :: "string \<Rightarrow> lookup" where
  "inherited k = (if k \<in> set object_prototype_names then Builtin else Undefined)"

text \<open>What the prototype chain gives for a key that is not an own property.\<close>

fun from_prototype :: "runtime \<Rightarrow> lookup \<Rightarrow> lookup run" where
  "from_prototype Pristine l = Returns l"
| "from_prototype Tampered l = Beyond"

fun get_prop :: "runtime \<Rightarrow> json \<Rightarrow> string \<Rightarrow> lookup run" where
  "get_prop rt JNull k = Throws"
| "get_prop rt (JBool b) k = from_prototype rt (inherited k)"
| "get_prop rt (JNum n) k =
     from_prototype rt (if k \<in> set number_prototype_names then Builtin else inherited k)"
| "get_prop rt (JStr s) k = Beyond"
| "get_prop rt (JArr xs) k = Beyond"
| "get_prop rt (JObj kvs) k =
     (case map_of kvs k of
        Some v \<Rightarrow> Returns (Own v)
      | None \<Rightarrow> from_prototype rt (inherited k))"

text \<open>\<^verbatim>\<open>x[k]\<close> where \<open>x\<close> is the result of an earlier read: reading a property of
  \<^verbatim>\<open>undefined\<close> throws.\<close>

fun get_of :: "runtime \<Rightarrow> lookup \<Rightarrow> string \<Rightarrow> lookup run" where
  "get_of rt Undefined k = Throws"
| "get_of rt (Own v) k = get_prop rt v k"
| "get_of rt Builtin k = Beyond"

text \<open>
  A read \<^verbatim>\<open>v.name\<close> of one of the field names written in the source
  (\<^verbatim>\<open>medicalSchedule\<close>, \<^verbatim>\<open>lastUpdated\<close>, \<^verbatim>\<open>name\<close>, \<^verbatim>\<open>hours\<close>,
  \<^verbatim>\<open>type\<close>, \<^verbatim>\<open>note\<close>). On a pristine runtime no prototype of a JSON value defines
  any of them, so the read sees own properties only; \<open>None\<close> is \<^verbatim>\<open>undefined\<close>.
\<close>

fun missing_field :: "runtime \<Rightarrow> json option run" where
  "missing_field Pristine = Returns None"
| "missing_field Tampered = Beyond"

fun field :: "runtime \<Rightarrow> json \<Rightarrow> string \<Rightarrow> json option run" where
  "field rt JNull k = Throws"
| "field rt (JObj kvs) k =
     (case map_of kvs k of Some v \<Rightarrow> Returns (Some v) | None \<Rightarrow> missing_field rt)"
| "field rt v k = missing_field rt"

fun truthy_opt :: "json option \<Rightarrow> bool" where
  "truthy_opt None = False"
| "truthy_opt (Some v) = truthy v"

text \<open>
  The order of an object's own keys: the keys that are array indices (canonical decimal
  numerals below \<open>2\<^sup>3\<^sup>2 - 1\<close>) come first, in ascending numeric order, then every other
  key in the order of its creation. A new property is therefore placed among the index
  keys when its key is one, and at the end otherwise.
\<close>

definition is_digit :: "char \<Rightarrow> bool" where
  "is_digit c = (c \<in> set ''0123456789'')"

definition digit_value :: "char \<Rightarrow> int" where
  "digit_value c = (case map_of (zip ''0123456789'' [0, 1, 2, 3, 4, 5, 6, 7, 8, 9]) c of
                      Some n \<Rightarrow> n | None \<Rightarrow> 0)"

definition index_value :: "string \<Rightarrow> int" where
  "index_value k = foldl (\<lambda>n c. 10 * n + digit_value c) 0 k"

definition is_array_index :: "string \<Rightarrow> bool" where
  "is_array_index k =
     (k \<noteq> [] \<and> list_all is_digit k \<and> (k = ''0'' \<or> take 1 k \<noteq> ''0'')
      \<and> index_value k < 4294967295)"

fun insert_index :: "string \<Rightarrow> 'a \<Rightarrow> (string \<times> 'a) list \<Rightarrow> (string \<times> 'a) list" where
  "insert_index k v [] = [(k, v)]"
| "insert_index k v ((k', w) # kvs) =
     (if is_array_index k' \<and> index_value k' < index_value k
      then (k', w) # insert_index k v kvs
      else (k, v) # (k', w) # kvs)"

definition add_prop :: "(string \<times> 'a) list \<Rightarrow> string \<Rightarrow> 'a \<Rightarrow> (string \<times> 'a) list" where
  "add_prop kvs k v = (if is_array_index k then insert_index k v kvs else kvs @ [(k, v)])"

text \<open>
  The assignment \<^verbatim>\<open>v[k] = x\<close>; the result is \<open>v\<close> afterwards. The file is not in strict
  mode, so a write to a property of a primitive is dropped without an error. On an object
  an own property is overwritten in place and a missing one is created, except that
  \<^verbatim>\<open>__proto__\<close>, when not an own property, is the inherited setter.
\<close>

fun set_prop :: "json \<Rightarrow> string \<Rightarrow> json \<Rightarrow> json run" where
  "set_prop JNull k x = Throws"
| "set_prop (JBool b) k x = Returns (JBool b)"
| "set_prop (JNum n) k x = Returns (JNum n)"
| "set_prop (JStr s) k x = Beyond"
| "set_prop (JArr xs) k x = Beyond"
| "set_prop (JObj kvs) k x =
     (if map_of kvs k \<noteq> None then Returns (JObj (AList.update k x kvs))
      else if k = ''__proto__'' then Beyond
      else Returns (JObj (add_prop kvs k x)))"

text \<open>\<^verbatim>\<open>delete v[k]\<close>: removes an own property of an object, does nothing otherwise.\<close>

fun delete_prop :: "json \<Rightarrow> string \<Rightarrow> json run" where
  "delete_prop JNull k = Throws"
| "delete_prop (JBool b) k = Returns (JBool b)"
| "delete_prop (JNum n) k = Returns (JNum n)"
| "delete_prop (JStr s) k = Beyond"
| "delete_prop (JArr xs) k = Beyond"
| "delete_prop (JObj kvs) k = Returns (JObj (AList.delete k kvs))"

text \<open>\<^verbatim>\<open>Object.keys(v)\<close>.\<close>

fun object_keys :: "json \<Rightarrow> string list run" where
  "object_keys JNull = Throws"
| "object_keys (JBool b) = Returns []"
| "object_keys (JNum n) = Returns []"
| "object_keys (JStr s) = Beyond"
| "object_keys (JArr xs) = Beyond"
| "object_keys (JObj kvs) = Returns (map fst kvs)"

text \<open>
  The handlers mutate nested objects through references. The document is a tree, so the
  mutation of a child held at the own property \<open>k\<close> of \<open>v\<close> is the replacement of that
  property's value.
\<close>

fun store :: "json \<Rightarrow> string \<Rightarrow> json \<Rightarrow> json" where
  "store (JObj kvs) k c = JObj (AList.update k c kvs)"
| "store v k c = v"

text \<open>An object literal, as \<^verbatim>\<open>res.json\<close> serialises it: a property whose value is
  \<^verbatim>\<open>undefined\<close> is left out.\<close>

fun json_object :: "(string \<times> json option) list \<Rightarrow> (string \<times> json) list" where
  "json_object [] = []"
| "json_object ((k, None) # ps) = json_object ps"
| "json_object ((k, Some v) # ps) = (k, v) # json_object ps"

section \<open>The data file\<close>

text \<open>
  The file is absent, unreadable, or holds a text. A text either does not parse or is
  \<open>Json_text v\<close>, the text that \<^verbatim>\<open>JSON.parse\<close> reads as \<open>v\<close>; \<^verbatim>\<open>JSON.stringify\<close> writes
  the text that reads as \<open>serialise v\<close>. \<^verbatim>\<open>fs.writeFile\<close> either writes the text or
  rejects, which the handler's \<^verbatim>\<open>catch\<close> turns into a 500; the parameter \<open>accepted\<close> says
  which, and a rejected write is taken to leave the file as it was. Each request runs to
  its end before the next one starts. The current time,
  \<^verbatim>\<open>new Date().toISOString()\<close>, is the parameter \<open>now\<close>.
\<close>

datatype file_text = Garbage | Json_text json

datatype disk = Absent | Unreadable | File file_text

datatype io_error = Read_error | Syntax_error

definition readFile :: "disk \<Rightarrow> io_error + file_text" where
  "readFile d = (case d of File t \<Rightarrow> Inr t | _ \<Rightarrow> Inl Read_error)"

definition JSON_parse :: "file_text \<Rightarrow> io_error + json" where
  "JSON_parse t = (case t of Json_text v \<Rightarrow> Inr v | Garbage \<Rightarrow> Inl Syntax_error)"

definition JSON_stringify :: "json \<Rightarrow> file_text" where
  "JSON_stringify v = Json_text (serialise v)"

definition writeFile :: "bool \<Rightarrow> file_text \<Rightarrow> disk run" where
  "writeFile accepted t = (if accepted then Returns (File t) else Throws)"

definition fresh_document :: "string \<Rightarrow> json" where
  "fresh_document now = JObj [(''medicalSchedule'', JObj []), (''lastUpdated'', JStr now)]"

definition readData :: "string \<Rightarrow> disk \<Rightarrow> json" where
  "readData now d =
     (case readFile d of
        Inl e \<Rightarrow> fresh_document now
      | Inr t \<Rightarrow> (case JSON_parse t of
                   Inl e \<Rightarrow> fresh_document now
                 | Inr v \<Rightarrow> v))"

definition saveData :: "string \<Rightarrow> bool \<Rightarrow> json \<Rightarrow> disk run" where
  "saveData now accepted data =
     and_then (set_prop data ''lastUpdated'' (JStr now))
       (\<lambda>data'. writeFile accepted (JSON_stringify data'))"

section \<open>Replies\<close>

text \<open>
  A reply is the body of a 200 response as the client parses it, or the status and the
  \<^verbatim>\<open>message\<close> of an error response. The \<^verbatim>\<open>error\<close> field of a 500 response is the
  engine's text of the exception and is left out. \<open>res_json\<close> is \<^verbatim>\<open>res.json\<close>, which
  sends what \<^verbatim>\<open>JSON.stringify\<close> writes. \<open>catch\<close> is the handler's \<^verbatim>\<open>catch\<close> block: the
  file is as it was when an exception is caught, because the write in \<^verbatim>\<open>saveData\<close> is
  the last thing a handler does before replying.
\<close>

datatype response = Ok json | Failed nat string

definition res_json :: "json \<Rightarrow> response" where
  "res_json body = Ok (serialise body)"

fun catch :: "string \<Rightarrow> 'a \<Rightarrow> (response \<times> 'a) run \<Rightarrow> (response \<times> 'a) run" where
  "catch msg d Throws = Returns (Failed 500 msg, d)"
| "catch msg d r = r"

section \<open>The specialty of an office\<close>

definition specialtyMap :: "(string \<times> string) list" where
  "specialtyMap =
     [(''derm'', ''dermatologia''),
      (''card'', ''cardiologia''),
      (''oftal'', ''oftalmologia''),
      (''ped'', ''pediatria''),
      (''gine'', ''ginecologia''),
      (''psiq'', ''psiquiatria'')]"

text \<open>\<^verbatim>\<open>officeId.split('_')[0]\<close>: the part before the first underscore, the whole
  identifier when it has none.\<close>

definition office_prefix :: "string \<Rightarrow> string" where
  "office_prefix officeId = takeWhile (\<lambda>c. c \<noteq> CHR ''_'') officeId"

text \<open>
  \<^verbatim>\<open>specialtyMap[prefix] || 'geral'\<close>. The table is an object literal, so the read sees
  the members of \<^verbatim>\<open>Object.prototype\<close> too, and those are truthy: for such a prefix the
  function returns the member, not a label.
\<close>

definition getSpecialtyFromOfficeId :: "string \<Rightarrow> lookup" where
  "getSpecialtyFromOfficeId officeId =
     (let prefix = office_prefix officeId in
      case map_of specialtyMap prefix of
        Some label \<Rightarrow> Own (JStr label)
      | None \<Rightarrow> (case inherited prefix of
                   Builtin \<Rightarrow> Builtin
                 | _ \<Rightarrow> Own (JStr ''geral'')))"

section \<open>The handlers\<close>

text \<open>
  Every handler takes the runtime it runs on, the current time, the file and, when it
  writes, whether the write is accepted; it returns the reply and the file afterwards.

  Helpers for chained reads: a \<^verbatim>\<open>v.field\<close> result as a lookup, the value a further
  property access works on, and the value a reply serialises.
\<close>

fun own_of :: "json option \<Rightarrow> lookup" where
  "own_of None = Undefined"
| "own_of (Some v) = Own v"

fun container :: "lookup \<Rightarrow> json run" where
  "container Undefined = Throws"
| "container (Own v) = Returns v"
| "container Builtin = Beyond"

fun reply_value :: "lookup \<Rightarrow> json option run" where
  "reply_value Undefined = Returns None"
| "reply_value (Own v) = Returns (Some v)"
| "reply_value Builtin = Beyond"

subsection \<open>\<^verbatim>\<open>GET /api/schedule\<close>\<close>

definition get_schedule :: "runtime \<Rightarrow> string \<Rightarrow> disk \<Rightarrow> (response \<times> disk) run" where
  "get_schedule rt now d = catch ''Erro ao carregar dados'' d
     (let data = readData now d in
      and_then (field rt data ''medicalSchedule'') (\<lambda>ms.
      and_then (field rt data ''lastUpdated'') (\<lambda>lu.
      Returns (res_json (JObj (json_object
                 [(''success'', Some (JBool True)),
                  (''data'', ms),
                  (''lastUpdated'', lu)])), d))))"

subsection \<open>\<^verbatim>\<open>POST /api/schedule\<close>\<close>

text \<open>
  The arguments \<open>officeId\<close>, \<open>day\<close>, \<open>timeSlot\<close> and \<open>doctorData\<close> are the values that line
  55 takes from \<^verbatim>\<open>req.body\<close>. The first three are strings or \<^verbatim>\<open>undefined\<close> (\<open>None\<close>):
  the conversion of other values to property keys is not embedded. \<open>doctorData\<close> is any
  JSON value or \<^verbatim>\<open>undefined\<close>. \<open>save_slot\<close> is the handler after its validation, lines
  65 to 84.
\<close>

definition save_slot ::
  "runtime \<Rightarrow> string \<Rightarrow> bool \<Rightarrow> disk \<Rightarrow> string \<Rightarrow> string \<Rightarrow> string \<Rightarrow> json
     \<Rightarrow> (response \<times> disk) run" where
  "save_slot rt now accepted d officeId day timeSlot doctorData =
     (let data = readData now d in
      and_then (field rt data ''medicalSchedule'') (\<lambda>m.
      and_then (container (own_of m)) (\<lambda>ms.
      \<comment> \<open>lines 68 to 70: the office is created when the read of it is falsy\<close>
      and_then (get_prop rt ms officeId) (\<lambda>l1.
      and_then (if \<not> truthy_lookup l1 then set_prop ms officeId (JObj []) else Returns ms) (\<lambda>ms1.
      \<comment> \<open>lines 71 to 73: the same for the day, read through the office\<close>
      and_then (and_then (get_prop rt ms1 officeId) container) (\<lambda>office.
      and_then (get_prop rt office day) (\<lambda>l2.
      and_then (if \<not> truthy_lookup l2 then set_prop office day (JObj []) else Returns office) (\<lambda>office1.
      \<comment> \<open>line 76: the assignment is written\<close>
      and_then (and_then (get_prop rt office1 day) container) (\<lambda>dayObj.
      and_then (set_prop dayObj timeSlot doctorData) (\<lambda>dayObj1.
      \<comment> \<open>line 78\<close>
      and_then (saveData now accepted
                  (store data ''medicalSchedule''
                     (store ms1 officeId (store office1 day dayObj1)))) (\<lambda>d'.
      \<comment> \<open>lines 80 to 84: the reply reads the slot back\<close>
      and_then (and_then (get_prop rt dayObj1 timeSlot) reply_value) (\<lambda>stored.
      Returns (res_json (JObj (json_object
                 [(''success'', Some (JBool True)),
                  (''message'', Some (JStr ''Escala salva com sucesso'')),
                  (''data'', stored)])), d')))))))))))))"

fun post_schedule ::
  "runtime \<Rightarrow> string \<Rightarrow> bool \<Rightarrow> disk
     \<Rightarrow> string option \<Rightarrow> string option \<Rightarrow> string option \<Rightarrow> json option
     \<Rightarrow> (response \<times> disk) run" where
  "post_schedule rt now accepted d (Some officeId) (Some day) (Some timeSlot) (Some doctorData) =
     catch ''Erro ao salvar dados'' d
       (if officeId = [] \<or> day = [] \<or> timeSlot = [] \<or> \<not> truthy doctorData
        then Returns (Failed 400 ''Dados incompletos'', d)
        else save_slot rt now accepted d officeId day timeSlot doctorData)"
| "post_schedule rt now accepted d officeId day timeSlot doctorData =
     Returns (Failed 400 ''Dados incompletos'', d)"

subsection \<open>\<^verbatim>\<open>DELETE /api/schedule/:officeId/:day/:timeSlot\<close>\<close>

definition not_found :: "disk \<Rightarrow> (response \<times> disk) run" where
  "not_found d = Returns (Failed 404 (''Escala n'' @ [CHR 0xE3] @ ''o encontrada''), d)"

definition delete_schedule ::
  "runtime \<Rightarrow> string \<Rightarrow> bool \<Rightarrow> disk \<Rightarrow> string \<Rightarrow> string \<Rightarrow> string
     \<Rightarrow> (response \<times> disk) run" where
  "delete_schedule rt now accepted d officeId day timeSlot = catch ''Erro ao excluir dados'' d
     (let data = readData now d in
      and_then (field rt data ''medicalSchedule'') (\<lambda>m.
      and_then (container (own_of m)) (\<lambda>ms.
      \<comment> \<open>lines 102 to 104: each read is tested for truthiness before the next\<close>
      and_then (get_prop rt ms officeId) (\<lambda>l1.
      if \<not> truthy_lookup l1 then not_found d else
      and_then (container l1) (\<lambda>office.
      and_then (get_prop rt office day) (\<lambda>l2.
      if \<not> truthy_lookup l2 then not_found d else
      and_then (container l2) (\<lambda>dayObj.
      and_then (get_prop rt dayObj timeSlot) (\<lambda>l3.
      if \<not> truthy_lookup l3 then not_found d else
      \<comment> \<open>line 106\<close>
      and_then (delete_prop dayObj timeSlot) (\<lambda>dayObj1.
      \<comment> \<open>lines 109 to 111: the day is removed when it has no key left\<close>
      and_then (object_keys dayObj1) (\<lambda>keys.
      and_then (if length keys = 0 then delete_prop office day
                else Returns (store office day dayObj1)) (\<lambda>office1.
      \<comment> \<open>line 113\<close>
      and_then (saveData now accepted
                  (store data ''medicalSchedule'' (store ms officeId office1))) (\<lambda>d'.
      Returns (res_json (JObj
                 [(''success'', JBool True),
                  (''message'', JStr (''Escala exclu'' @ [CHR 0xED] @ ''da com sucesso''))]), d')))))))))))))"

subsection \<open>\<^verbatim>\<open>POST /api/restore\<close>\<close>

definition post_restore ::
  "runtime \<Rightarrow> string \<Rightarrow> bool \<Rightarrow> disk \<Rightarrow> json \<Rightarrow> (response \<times> disk) run" where
  "post_restore rt now accepted d backupData = catch ''Erro ao restaurar backup'' d
     (and_then (field rt backupData ''medicalSchedule'') (\<lambda>ms.
      if \<not> truthy_opt ms
      then Returns (Failed 400 (''Arquivo de backup inv'' @ [CHR 0xE1] @ ''lido''), d)
      else and_then (saveData now accepted backupData) (\<lambda>d'.
           Returns (res_json (JObj
                      [(''success'', JBool True),
                       (''message'', JStr ''Backup restaurado com sucesso'')]), d'))))"

subsection \<open>\<^verbatim>\<open>GET /api/search/doctor\<close>\<close>

text \<open>
  The argument is the value that line 138 takes from \<^verbatim>\<open>req.query\<close>: a string, or
  \<^verbatim>\<open>undefined\<close> (\<open>None\<close>).

  Strings are lists of 8-bit characters, read as Latin-1 (the accented letters of the
  messages are their Latin-1 codes); text beyond Latin-1 is not represented.
  \<open>toLowerCase\<close> lowers the letters \<^verbatim>\<open>A\<close> to \<^verbatim>\<open>Z\<close> and the accented capitals
  \<^verbatim>\<open>0xC0\<close> to \<^verbatim>\<open>0xDE\<close> (the multiplication sign \<^verbatim>\<open>0xD7\<close> is not a letter).
\<close>

definition upper_letters :: "string" where
  "upper_letters =
     ''ABCDEFGHIJKLMNOPQRSTUVWXYZ'' @
     [CHR 0xC0, CHR 0xC1, CHR 0xC2, CHR 0xC3, CHR 0xC4, CHR 0xC5, CHR 0xC6,
      CHR 0xC7, CHR 0xC8, CHR 0xC9, CHR 0xCA, CHR 0xCB, CHR 0xCC, CHR 0xCD,
      CHR 0xCE, CHR 0xCF, CHR 0xD0, CHR 0xD1, CHR 0xD2, CHR 0xD3, CHR 0xD4,
      CHR 0xD5, CHR 0xD6, CHR 0xD8, CHR 0xD9, CHR 0xDA, CHR 0xDB, CHR 0xDC,
      CHR 0xDD, CHR 0xDE]"

definition lower_letters :: "string" where
  "lower_letters =
     ''abcdefghijklmnopqrstuvwxyz'' @
     [CHR 0xE0, CHR 0xE1, CHR 0xE2, CHR 0xE3, CHR 0xE4, CHR 0xE5, CHR 0xE6,
      CHR 0xE7, CHR 0xE8, CHR 0xE9, CHR 0xEA, CHR 0xEB, CHR 0xEC, CHR 0xED,
      CHR 0xEE, CHR 0xEF, CHR 0xF0, CHR 0xF1, CHR 0xF2, CHR 0xF3, CHR 0xF4,
      CHR 0xF5, CHR 0xF6, CHR 0xF8, CHR 0xF9, CHR 0xFA, CHR 0xFB, CHR 0xFC,
      CHR 0xFD, CHR 0xFE]"

definition lower_char :: "char \<Rightarrow> char" where
  "lower_char c =
     (case map_of (zip upper_letters lower_letters) c of
        Some l \<Rightarrow> l
      | None \<Rightarrow> c)"

definition toLowerCase :: "string \<Rightarrow> string" where
  "toLowerCase s = map lower_char s"

fun starts_with :: "string \<Rightarrow> string \<Rightarrow> bool" where
  "starts_with s [] = True"
| "starts_with [] (c # cs) = False"
| "starts_with (x # xs) (c # cs) = (x = c \<and> starts_with xs cs)"

fun string_includes :: "string \<Rightarrow> string \<Rightarrow> bool" where
  "string_includes [] sub = (sub = [])"
| "string_includes (x # xs) sub = (starts_with (x # xs) sub \<or> string_includes xs sub)"

text \<open>
  \<^verbatim>\<open>for (const k in x)\<close> enumerates the own keys of \<open>x\<close>, in their order, and then the
  enumerable members that \<open>x\<close> inherits. On a pristine runtime no built-in member is
  enumerable; on a tampered one the members that requests have added are. There is no
  iteration over \<^verbatim>\<open>undefined\<close> or \<^verbatim>\<open>null\<close>.
\<close>

fun for_in :: "runtime \<Rightarrow> lookup \<Rightarrow> string list run" where
  "for_in rt Undefined = Returns []"
| "for_in rt (Own JNull) = Returns []"
| "for_in rt Builtin = Beyond"
| "for_in rt (Own (JStr s)) = Beyond"
| "for_in rt (Own (JArr xs)) = Beyond"
| "for_in Tampered (Own v) = Beyond"
| "for_in Pristine (Own (JObj kvs)) = Returns (map fst kvs)"
| "for_in Pristine (Own v) = Returns []"

fun for_each :: "'k list \<Rightarrow> ('k \<Rightarrow> 'a \<Rightarrow> 'a run) \<Rightarrow> 'a \<Rightarrow> 'a run" where
  "for_each [] body acc = Returns acc"
| "for_each (k # ks) body acc = and_then (body k acc) (for_each ks body)"

text \<open>\<^verbatim>\<open>x || ''\<close>.\<close>

fun or_empty :: "json option \<Rightarrow> json" where
  "or_empty None = JStr []"
| "or_empty (Some v) = (if truthy v then v else JStr [])"

text \<open>The object pushed onto \<^verbatim>\<open>schedules\<close>, lines 162 to 169.\<close>

definition schedule_entry ::
  "runtime \<Rightarrow> string \<Rightarrow> string \<Rightarrow> string \<Rightarrow> json \<Rightarrow> json run" where
  "schedule_entry rt officeId day time doctor =
     and_then (field rt doctor ''hours'') (\<lambda>hours.
     and_then (field rt doctor ''type'') (\<lambda>type.
     and_then (field rt doctor ''note'') (\<lambda>note.
     Returns (JObj (json_object
                [(''office'', Some (JStr officeId)),
                 (''day'', Some (JStr day)),
                 (''time'', Some (JStr time)),
                 (''hours'', Some (or_empty hours)),
                 (''type'', type),
                 (''note'', Some (or_empty note))])))))"

text \<open>
  \<open>foundDoctors\<close> maps a name to its \<^verbatim>\<open>specialty\<close> and its \<^verbatim>\<open>schedules\<close>. It is an
  object, so a name that is a member of \<^verbatim>\<open>Object.prototype\<close> reads as truthy without
  having been added; the \<^verbatim>\<open>push\<close> on its missing \<^verbatim>\<open>schedules\<close> then throws.
  \<open>visit\<close> is the body of the innermost loop, lines 154 to 170. The loop body is reached
  on a pristine runtime only, where \<open>inherited\<close> and \<open>getSpecialtyFromOfficeId\<close> are what
  the reads of \<open>foundDoctors\<close> and of the table of specialties find.
\<close>

type_synonym found = "(string \<times> (json \<times> json list)) list"

definition push_schedule :: "string \<Rightarrow> string \<Rightarrow> json \<Rightarrow> found \<Rightarrow> found run" where
  "push_schedule n officeId e foundDoctors =
     (case map_of foundDoctors n of
        Some (sp, scheds) \<Rightarrow> Returns (AList.update n (sp, scheds @ [e]) foundDoctors)
      | None \<Rightarrow>
          (case inherited n of
             Builtin \<Rightarrow> Throws
           | _ \<Rightarrow> and_then (reply_value (getSpecialtyFromOfficeId officeId)) (\<lambda>sp.
                  (case sp of
                     Some label \<Rightarrow> Returns (add_prop foundDoctors n (label, [e]))
                   | None \<Rightarrow> Beyond))))"

definition visit ::
  "runtime \<Rightarrow> string \<Rightarrow> string \<Rightarrow> string \<Rightarrow> string \<Rightarrow> lookup \<Rightarrow> found \<Rightarrow> found run" where
  "visit rt name officeId day time l foundDoctors =
     and_then (container l) (\<lambda>doctor.
     and_then (field rt doctor ''name'') (\<lambda>nm.
       (case nm of
          None \<Rightarrow> Returns foundDoctors
        | Some (JStr n) \<Rightarrow>
            if n \<noteq> [] \<and> string_includes (toLowerCase n) (toLowerCase name)
            then and_then (schedule_entry rt officeId day time doctor) (\<lambda>e.
                 push_schedule n officeId e foundDoctors)
            else Returns foundDoctors
        | Some v \<Rightarrow> if truthy v then Throws else Returns foundDoctors)))"

definition scan :: "runtime \<Rightarrow> string \<Rightarrow> lookup \<Rightarrow> found run" where
  "scan rt name ms =
     and_then (for_in rt ms) (\<lambda>offices.
     for_each offices (\<lambda>officeId acc1.
       and_then (get_of rt ms officeId) (\<lambda>office.
       and_then (for_in rt office) (\<lambda>days.
       for_each days (\<lambda>day acc2.
         and_then (get_of rt office day) (\<lambda>dayObj.
         and_then (for_in rt dayObj) (\<lambda>times.
         for_each times (\<lambda>time acc3.
           and_then (get_of rt dayObj time) (\<lambda>doctor.
           visit rt name officeId day time doctor acc3))
         acc2)))
       acc1)))
     [])"

definition found_json :: "found \<Rightarrow> json" where
  "found_json foundDoctors =
     JObj (map (\<lambda>(n, sp, scheds). (n, JObj [(''schedules'', JArr scheds), (''specialty'', sp)]))
             foundDoctors)"

definition get_search_doctor ::
  "runtime \<Rightarrow> string \<Rightarrow> disk \<Rightarrow> string option \<Rightarrow> (response \<times> disk) run" where
  "get_search_doctor rt now d name' = catch ''Erro na busca'' d
     (case name' of
        None \<Rightarrow> Returns (res_json (JObj [(''success'', JBool True), (''results'', JArr [])]), d)
      | Some name \<Rightarrow>
          if name = [] \<or> length name < 2
          then Returns (res_json (JObj [(''success'', JBool True), (''results'', JArr [])]), d)
          else
            and_then (field rt (readData now d) ''medicalSchedule'') (\<lambda>ms.
            and_then (scan rt name (own_of ms)) (\<lambda>foundDoctors.
            Returns (res_json (JObj [(''success'', JBool True),
                                     (''results'', found_json foundDoctors)]), d))))"

section \<open>Addresses in a schedule\<close>

text \<open>
  A schedule maps an office to a mapping from days to a mapping from time slots to
  assignments. \<open>assignment_at\<close> is the value a schedule holds at the address
  \<open>(officeId, day, timeSlot)\<close>, through own properties of objects only.
\<close>

fun member_of :: "json \<Rightarrow> string \<Rightarrow> json option" where
  "member_of (JObj kvs) k = map_of kvs k"
| "member_of v k = None"

definition assignment_at :: "json \<Rightarrow> string \<Rightarrow> string \<Rightarrow> string \<Rightarrow> json option" where
  "assignment_at ms officeId day timeSlot =
     (case member_of ms officeId of
        None \<Rightarrow> None
      | Some office \<Rightarrow>
          (case member_of office day of
             None \<Rightarrow> None
           | Some dayObj \<Rightarrow> member_of dayObj timeSlot))"


text \<open>A property that is missing, holds a falsy value or holds an object: what
  \<^verbatim>\<open>POST /api/schedule\<close> can use, or replace, as a container.\<close>

fun object_or_falsy :: "json option \<Rightarrow> bool" where
  "object_or_falsy None = True"
| "object_or_falsy (Some (JObj kvs)) = True"
| "object_or_falsy (Some v) = (\<not> truthy v)"

text \<open>The fields of a document after \<open>saveData\<close> has set \<^verbatim>\<open>lastUpdated\<close>.\<close>

definition stamped :: "string \<Rightarrow> (string \<times> json) list \<Rightarrow> (string \<times> json) list" where
  "stamped now flds =
     (if map_of flds ''lastUpdated'' \<noteq> None then AList.update ''lastUpdated'' (JStr now) flds
      else flds @ [(''lastUpdated'', JStr now)])"

section \<open>What a search is to return\<close>



definition doctor_name :: "json \<Rightarrow> string" where
  "doctor_name doctor = (case member_of doctor ''name'' of Some (JStr n) \<Rightarrow> n | _ \<Rightarrow> [])"

definition name_matches :: "string \<Rightarrow> json \<Rightarrow> bool" where
  "name_matches q doctor =
     (doctor_name doctor \<noteq> [] \<and> string_includes (toLowerCase (doctor_name doctor)) (toLowerCase q))"











section \<open>Facts about objects and the data file\<close>

lemma map_of_update [simp]: "map_of (AList.update k v kvs) = (map_of kvs)(k \<mapsto> v)"
  by (simp add: update_conv')

lemma map_of_delete [simp]: "map_of (AList.delete k kvs) = (map_of kvs)(k := None)"
  by (simp add: delete_conv')




lemma inherited_fresh: "k \<notin> set object_prototype_names \<Longrightarrow> inherited k = Undefined"
  by (simp add: inherited_def)


lemma serialise_idem [simp]: "serialise (serialise v) = serialise v"
proof (induction v)
  case (JNum x)
  then show ?case by (cases x) simp_all
next
  case (JArr xs)
  then show ?case by simp
next
  case (JObj kvs)
  have "map (map_prod id serialise \<circ> map_prod id serialise) kvs = map (map_prod id serialise) kvs"
  proof (rule map_cong [OF refl])
    fix p assume p: "p \<in> set kvs"
    obtain k v where kv: "p = (k, v)" by (cases p)
    with JObj.IH p have "serialise (serialise v) = serialise v" by fastforce
    with kv show "(map_prod id serialise \<circ> map_prod id serialise) p = map_prod id serialise p"
      by simp
  qed
  then show ?case by simp
qed simp_all

lemma map_of_serialise [simp]:
  "map_of (map (map_prod id serialise) kvs) k = map_option serialise (map_of kvs k)"
  by (induction kvs) auto

lemma member_of_serialise: "member_of (serialise v) k = map_option serialise (member_of v k)"
proof (cases v)
  case (JNum x)
  then show ?thesis by (cases x) simp_all
qed simp_all

lemma assignment_at_serialise:
  "assignment_at (serialise ms) officeId day timeSlot
     = map_option serialise (assignment_at ms officeId day timeSlot)"
  by (simp add: assignment_at_def member_of_serialise split: option.splits)

text \<open>\<open>saveData\<close> on a document that is an object, for each outcome of the write.\<close>

lemma set_lastUpdated:
  "set_prop (JObj flds) ''lastUpdated'' (JStr now) = Returns (JObj (stamped now flds))"
  by (simp add: stamped_def add_prop_def is_array_index_def is_digit_def)

lemma saveData_stamped:
  "saveData now True (JObj flds)
     = Returns (File (Json_text (serialise (JObj (stamped now flds)))))"
  by (simp add: saveData_def set_lastUpdated JSON_stringify_def writeFile_def
           del: set_prop.simps)


lemma map_of_stamped:
  "map_of (stamped now flds) = (map_of flds)(''lastUpdated'' \<mapsto> JStr now)"
  by (auto simp: stamped_def fun_eq_iff map_add_def split: option.splits)



lemma readData_File [simp]: "readData now (File (Json_text v)) = v"
  by (simp add: readData_def readFile_def JSON_parse_def)


lemma get_prop_own: "map_of kvs k = Some v \<Longrightarrow> get_prop rt (JObj kvs) k = Returns (Own v)"
  by simp


lemma member_of_SomeD:
  "member_of data k = Some v \<Longrightarrow> \<exists>flds. data = JObj flds \<and> map_of flds k = Some v"
  by (cases data) auto

text \<open>The schedule that \<^verbatim>\<open>GET /api/schedule\<close> returns from a file that \<open>saveData\<close> has
  written, on any runtime.\<close>

lemma get_schedule_saved:
  assumes "map_of flds ''medicalSchedule'' = Some ms"
  shows "get_schedule rt now' (File (Json_text (serialise (JObj (stamped now flds)))))
     = Returns (Ok (JObj [(''success'', JBool True), (''data'', serialise ms),
                          (''lastUpdated'', JStr now)]),
                File (Json_text (serialise (JObj (stamped now flds)))))"
  using assms by (simp add: get_schedule_def map_of_stamped res_json_def)

lemma assignment_at_SomeD:
  assumes "assignment_at ms officeId day timeSlot = Some v"
  shows "\<exists>offices days slots. ms = JObj offices
      \<and> map_of offices officeId = Some (JObj days)
      \<and> map_of days day = Some (JObj slots)
      \<and> map_of slots timeSlot = Some v"
proof -
  from assms obtain office where o: "member_of ms officeId = Some office"
    by (auto simp: assignment_at_def split: option.splits)
  with assms obtain dayObj where dy: "member_of office day = Some dayObj"
    by (auto simp: assignment_at_def split: option.splits)
  with o assms have t: "member_of dayObj timeSlot = Some v"
    by (simp add: assignment_at_def)
  from o obtain offices where "ms = JObj offices" by (cases ms) auto
  moreover from dy obtain days where "office = JObj days" by (cases office) auto
  moreover from t obtain slots where "dayObj = JObj slots" by (cases dayObj) auto
  ultimately show ?thesis using o dy t by auto
qed

lemma delete_all_keys:
  assumes "\<forall>t. t \<noteq> k \<longrightarrow> map_of kvs t = None"
  shows "AList.delete k kvs = []"
  using assms
proof (induction kvs)
  case Nil
  then show ?case by simp
next
  case (Cons p kvs)
  obtain k' v where p: "p = (k', v)" by (cases p)
  have "k' = k"
  proof (rule ccontr)
    assume "k' \<noteq> k"
    with Cons.prems have "map_of (p # kvs) k' = None" by blast
    with p show False by simp
  qed
  moreover have "\<forall>t. t \<noteq> k \<longrightarrow> map_of kvs t = None"
  proof (intro allI impI)
    fix t assume "t \<noteq> k"
    with Cons.prems have "map_of (p # kvs) t = None" by blast
    with p \<open>k' = k\<close> \<open>t \<noteq> k\<close> show "map_of kvs t = None" by simp
  qed
  ultimately show ?case using Cons.IH p by simp
qed


section \<open>Storing a slot\<close>





text \<open>
  Where the description of the runtime ends: a \<^verbatim>\<open>POST /api/schedule\<close> whose office is
  \<^verbatim>\<open>__proto__\<close> passes the validation and goes on to write into
  \<^verbatim>\<open>Object.prototype\<close>. The runtime is tampered from then on.
\<close>

lemma post_schedule_into_prototype:
  "post_schedule Pristine ''t0'' True Absent
     (Some ''__proto__'') (Some ''card_1'') (Some ''09:00'')
     (Some (JObj [(''name'', JStr ''Dr. Silva'')])) = Beyond"
  by (simp add: save_slot_def readData_def readFile_def fresh_document_def inherited_def
        object_prototype_names_def)

text \<open>On a tampered runtime the same request as in the scenario above is not described:
  the read of the office goes to the prototype chain.\<close>

lemma post_schedule_tampered:
  "post_schedule Tampered ''t0'' True Absent
     (Some ''card_1'') (Some ''Monday'') (Some ''09:00'')
     (Some (JObj [(''name'', JStr ''Dr. Silva'')])) = Beyond"
  by (simp add: save_slot_def readData_def readFile_def fresh_document_def)

section \<open>Deleting a slot\<close>

text \<open>
  Deleting an assignment that is there, on any runtime and with the write accepted: the
  reply is a success, the schedule read afterwards holds nothing at the address, and the
  day is not left behind as an empty object.
\<close>

lemma delete_schedule_present:
  assumes doc: "member_of (readData now d) ''medicalSchedule'' = Some ms"
    and at: "assignment_at ms officeId day timeSlot = Some v"
    and "truthy v"
  shows "\<exists>d' ms'.
      delete_schedule rt now True d officeId day timeSlot
        = Returns (Ok (JObj [(''success'', JBool True),
                             (''message'',
                              JStr (''Escala exclu'' @ [CHR 0xED] @ ''da com sucesso''))]), d')
      \<and> get_schedule rt' now' d'
        = Returns (Ok (JObj [(''success'', JBool True), (''data'', ms'),
                             (''lastUpdated'', JStr now)]), d')
      \<and> assignment_at ms' officeId day timeSlot = None
      \<and> (\<forall>office. member_of ms' officeId = Some office
            \<longrightarrow> member_of office day \<noteq> Some (JObj []))"
proof -
  obtain offices days slots where shape: "ms = JObj offices"
    "map_of offices officeId = Some (JObj days)"
    "map_of days day = Some (JObj slots)"
    "map_of slots timeSlot = Some v"
    using assignment_at_SomeD [OF at] by blast
  obtain flds where data: "readData now d = JObj flds"
    and ms: "map_of flds ''medicalSchedule'' = Some (JObj offices)"
    using member_of_SomeD [OF doc] shape(1) by blast
  define days1 where
    "days1 = (if AList.delete timeSlot slots = [] then AList.delete day days
              else AList.update day (JObj (AList.delete timeSlot slots)) days)"
  define ms' where "ms' = JObj (AList.update officeId (JObj days1) offices)"
  define flds' where "flds' = AList.update ''medicalSchedule'' ms' flds"
  define d' where "d' = File (Json_text (serialise (JObj (stamped now flds'))))"
  have del: "delete_schedule rt now True d officeId day timeSlot
        = Returns (Ok (JObj [(''success'', JBool True),
                             (''message'',
                              JStr (''Escala exclu'' @ [CHR 0xED] @ ''da com sucesso''))]), d')"
    using assms(3)
    by (simp add: delete_schedule_def data ms shape saveData_stamped d'_def flds'_def ms'_def
          days1_def res_json_def del: serialise.simps)
       simp
  have "map_of flds' ''medicalSchedule'' = Some ms'"
    by (simp add: flds'_def)
  then have get: "get_schedule rt' now' d'
        = Returns (Ok (JObj [(''success'', JBool True), (''data'', serialise ms'),
                             (''lastUpdated'', JStr now)]), d')"
    unfolding d'_def by (rule get_schedule_saved)
  have "assignment_at ms' officeId day timeSlot = None"
    by (simp add: assignment_at_def ms'_def days1_def)
  then have gone: "assignment_at (serialise ms') officeId day timeSlot = None"
    by (simp add: assignment_at_serialise)
  have pruned: "\<forall>office. member_of (serialise ms') officeId = Some office
                  \<longrightarrow> member_of office day \<noteq> Some (JObj [])"
    by (auto simp: ms'_def days1_def)
  from del get gone pruned show ?thesis by blast
qed

text \<open>
  Deleting where nothing is stored, on a pristine runtime: when the keys are not names of
  members of \<^verbatim>\<open>Object.prototype\<close> and the office and the day, where present and
  truthy, are objects, the reply is the 404 and the file stays as it was.
\<close>

lemma delete_schedule_absent:
  assumes doc: "member_of (readData now d) ''medicalSchedule'' = Some (JObj offices)"
    and none: "assignment_at (JObj offices) officeId day timeSlot = None"
    and keys: "officeId \<notin> set object_prototype_names" "day \<notin> set object_prototype_names"
      "timeSlot \<notin> set object_prototype_names"
    and office: "object_or_falsy (map_of offices officeId)"
    and dayc: "\<forall>days. map_of offices officeId = Some (JObj days)
                 \<longrightarrow> object_or_falsy (map_of days day)"
  shows "delete_schedule Pristine now accepted d officeId day timeSlot
           = Returns (Failed 404 (''Escala n'' @ [CHR 0xE3] @ ''o encontrada''), d)"
proof -
  obtain flds where data: "readData now d = JObj flds"
    and ms: "map_of flds ''medicalSchedule'' = Some (JObj offices)"
    using member_of_SomeD [OF doc] by blast
  show ?thesis
  proof (cases "map_of offices officeId")
    case None
    with data ms keys show ?thesis
      by (simp add: delete_schedule_def not_found_def inherited_fresh)
  next
    case (Some office)
    show ?thesis
    proof (cases "truthy office")
      case False
      with Some data ms show ?thesis
        by (simp add: delete_schedule_def not_found_def)
    next
      case True
      with Some office obtain days where o: "office = JObj days" by (cases office) auto
      show ?thesis
      proof (cases "map_of days day")
        case None
        with Some o data ms keys show ?thesis
          by (simp add: delete_schedule_def not_found_def inherited_fresh)
      next
        case (Some dayObj) note dy = this
        show ?thesis
        proof (cases "truthy dayObj")
          case False
          with dy \<open>map_of offices officeId = Some office\<close> o data ms show ?thesis
            by (simp add: delete_schedule_def not_found_def)
        next
          case True
          from dayc \<open>map_of offices officeId = Some office\<close> o dy True
          obtain slots where s: "dayObj = JObj slots" by (cases dayObj) auto
          from none \<open>map_of offices officeId = Some office\<close> o dy s
          have "map_of slots timeSlot = None" by (simp add: assignment_at_def)
          with dy \<open>map_of offices officeId = Some office\<close> o s data ms keys show ?thesis
            by (simp add: delete_schedule_def not_found_def inherited_fresh)
        qed
      qed
    qed
  qed
qed







text \<open>
  Nor does the handler look at the other offices: a document restored with an office that
  has nothing under it (\<^verbatim>\<open>derm_1\<close>) still holds that office after a slot of another
  office has been deleted. The comment above the test of the day reads
  \<^verbatim>\<open>Limpar objetos vazios\<close>.
\<close>

lemma delete_leaves_other_empty_office:
  "post_restore Pristine ''t0'' True Absent
     (JObj [(''medicalSchedule'',
             JObj [(''derm_1'', JObj []),
                   (''card_1'', JObj [(''Monday'',
                      JObj [(''09:00'', JObj [(''name'', JStr ''Dr. Silva'')]),
                            (''10:00'', JObj [(''name'', JStr ''Ana Souza'')])])])])])
     = Returns (Ok (JObj [(''success'', JBool True),
                          (''message'', JStr ''Backup restaurado com sucesso'')]),
        File (Json_text (JObj
          [(''medicalSchedule'',
             JObj [(''derm_1'', JObj []),
                   (''card_1'', JObj [(''Monday'',
                      JObj [(''09:00'', JObj [(''name'', JStr ''Dr. Silva'')]),
                            (''10:00'', JObj [(''name'', JStr ''Ana Souza'')])])])]),
           (''lastUpdated'', JStr ''t0'')])))
   \<and> delete_schedule Pristine ''t1'' True
        (File (Json_text (JObj
          [(''medicalSchedule'',
             JObj [(''derm_1'', JObj []),
                   (''card_1'', JObj [(''Monday'',
                      JObj [(''09:00'', JObj [(''name'', JStr ''Dr. Silva'')]),
                            (''10:00'', JObj [(''name'', JStr ''Ana Souza'')])])])]),
           (''lastUpdated'', JStr ''t0'')])))
        ''card_1'' ''Monday'' ''09:00''
     = Returns (Ok (JObj [(''success'', JBool True),
                          (''message'',
                           JStr (''Escala exclu'' @ [CHR 0xED] @ ''da com sucesso''))]),
        File (Json_text (JObj
          [(''medicalSchedule'',
             JObj [(''derm_1'', JObj []),
                   (''card_1'', JObj [(''Monday'',
                      JObj [(''10:00'', JObj [(''name'', JStr ''Ana Souza'')])])])]),
           (''lastUpdated'', JStr ''t1'')])))"
  by (simp add: post_restore_def delete_schedule_def saveData_stamped stamped_def res_json_def)

text \<open>
  A delete that succeeds without an assignment at the address: the day holds
  \<^verbatim>\<open>true\<close>, the time slot \<^verbatim>\<open>valueOf\<close> is a member that booleans inherit, and the day
  is removed because it has no own key.
\<close>

lemma delete_schedule_boolean_day:
  "delete_schedule Pristine ''t1'' True
     (File (Json_text (JObj
        [(''medicalSchedule'',
          JObj [(''card_1'', JObj [(''Monday'', JBool True),
                                   (''Friday'', JObj [(''14:00'', JObj [(''name'', JStr ''Bruno'')])])])]),
         (''lastUpdated'', JStr ''t0'')])))
     ''card_1'' ''Monday'' ''valueOf''
   = Returns (Ok (JObj [(''success'', JBool True),
                        (''message'',
                         JStr (''Escala exclu'' @ [CHR 0xED] @ ''da com sucesso''))]),
        File (Json_text (JObj
          [(''medicalSchedule'',
            JObj [(''card_1'', JObj [(''Friday'', JObj [(''14:00'', JObj [(''name'', JStr ''Bruno'')])])])]),
           (''lastUpdated'', JStr ''t1'')])))"
  by (simp add: delete_schedule_def saveData_stamped stamped_def res_json_def inherited_def
        object_prototype_names_def)

text \<open>
  Claim C3 asks for a 404 wherever no assignment is stored. The handler tests
  \<^verbatim>\<open>data.medicalSchedule[officeId][day][timeSlot]\<close> for truthiness, and on an object that
  read also finds the members of \<^verbatim>\<open>Object.prototype\<close>: for the time slot
  \<^verbatim>\<open>toString\<close> of an existing day the test passes although nothing is stored there,
  nothing is deleted, the file is rewritten and the reply is a success. The runtime is
  pristine and the write is accepted.
\<close>

theorem C3_inherited_member_deleted:
  "assignment_at
     (JObj [(''card_1'',
             JObj [(''Monday'', JObj [(''09:00'', JObj [(''name'', JStr ''Dr. Silva'')])])])])
     ''card_1'' ''Monday'' ''toString'' = None
   \<and> delete_schedule Pristine ''t1'' True
     (File (Json_text (JObj
        [(''medicalSchedule'',
            JObj [(''card_1'',
                   JObj [(''Monday'', JObj [(''09:00'', JObj [(''name'', JStr ''Dr. Silva'')])])])]),
         (''lastUpdated'', JStr ''t0'')])))
     ''card_1'' ''Monday'' ''toString''
   = Returns (Ok (JObj [(''success'', JBool True),
                        (''message'',
                         JStr (''Escala exclu'' @ [CHR 0xED] @ ''da com sucesso''))]),
              File (Json_text (JObj
        [(''medicalSchedule'',
            JObj [(''card_1'',
                   JObj [(''Monday'', JObj [(''09:00'', JObj [(''name'', JStr ''Dr. Silva'')])])])]),
         (''lastUpdated'', JStr ''t1'')])))"
  by (simp add: assignment_at_def delete_schedule_def saveData_stamped stamped_def inherited_def
        object_prototype_names_def res_json_def)

text \<open>
  Claim C10. When the value stored at \<open>(officeId, day, timeSlot)\<close> is falsy
  (\<^verbatim>\<open>null\<close>, \<^verbatim>\<open>false\<close>, \<^verbatim>\<open>0\<close> or the empty string), the key is there, yet
  \<^verbatim>\<open>DELETE\<close> replies 404 and the file stays as it was, on every runtime and whatever
  a write would have done.
\<close>

theorem C10_falsy_slot_not_found:
  assumes doc: "member_of (readData now d) ''medicalSchedule'' = Some ms"
    and at: "assignment_at ms officeId day timeSlot = Some v"
    and falsy: "\<not> truthy v"
  shows "delete_schedule rt now accepted d officeId day timeSlot
           = Returns (Failed 404 (''Escala n'' @ [CHR 0xE3] @ ''o encontrada''), d)"
proof -
  obtain offices days slots where shape: "ms = JObj offices"
    "map_of offices officeId = Some (JObj days)"
    "map_of days day = Some (JObj slots)"
    "map_of slots timeSlot = Some v"
    using assignment_at_SomeD [OF at] by blast
  obtain flds where "readData now d = JObj flds"
    "map_of flds ''medicalSchedule'' = Some (JObj offices)"
    using member_of_SomeD [OF doc] shape(1) by blast
  with shape falsy show ?thesis
    by (simp add: delete_schedule_def not_found_def)
qed

theorem C10_falsy_slot_not_found_witness:
  "assignment_at (JObj [(''card_1'', JObj [(''Monday'', JObj [(''09:00'', JNull)])])])
      ''card_1'' ''Monday'' ''09:00'' = Some JNull
   \<and> (\<forall>rt accepted. delete_schedule rt ''t1'' accepted
        (File (Json_text (JObj
           [(''medicalSchedule'',
             JObj [(''card_1'', JObj [(''Monday'', JObj [(''09:00'', JNull)])])])])))
        ''card_1'' ''Monday'' ''09:00''
      = Returns (Failed 404 (''Escala n'' @ [CHR 0xE3] @ ''o encontrada''),
           File (Json_text (JObj
             [(''medicalSchedule'',
               JObj [(''card_1'', JObj [(''Monday'', JObj [(''09:00'', JNull)])])])]))))"
  using C10_falsy_slot_not_found [where now = "''t1''" and officeId = "''card_1''"
      and day = "''Monday''" and timeSlot = "''09:00''" and v = JNull
      and ms = "JObj [(''card_1'', JObj [(''Monday'', JObj [(''09:00'', JNull)])])]"
      and d = "File (Json_text (JObj
           [(''medicalSchedule'',
             JObj [(''card_1'', JObj [(''Monday'', JObj [(''09:00'', JNull)])])])]))"]
  by (simp add: assignment_at_def)

section \<open>Restoring a backup\<close>







text \<open>
  A document whose \<^verbatim>\<open>medicalSchedule\<close> is the numeral \<^verbatim>\<open>1e400\<close> is accepted, and the
  schedule read afterwards is \<^verbatim>\<open>null\<close>.
\<close>

lemma restore_infinite_schedule:
  "post_restore Pristine ''t1'' True Absent (JObj [(''medicalSchedule'', JNum PosInfinity)])
     = Returns (Ok (JObj [(''success'', JBool True),
                          (''message'', JStr ''Backup restaurado com sucesso'')]),
                File (Json_text (JObj [(''medicalSchedule'', JNull),
                                       (''lastUpdated'', JStr ''t1'')])))
   \<and> get_schedule Pristine ''t2''
       (File (Json_text (JObj [(''medicalSchedule'', JNull), (''lastUpdated'', JStr ''t1'')])))
     = Returns (Ok (JObj [(''success'', JBool True), (''data'', JNull),
                          (''lastUpdated'', JStr ''t1'')]),
                File (Json_text (JObj [(''medicalSchedule'', JNull),
                                       (''lastUpdated'', JStr ''t1'')])))"
  by (simp add: post_restore_def get_schedule_def saveData_stamped stamped_def res_json_def)

section \<open>Loading the file\<close>

text \<open>
  Claim C8. \<open>readData\<close> returns a document for every state of the file, and when the file
  cannot be read or its text does not parse, the document is the fresh one: an empty
  \<^verbatim>\<open>medicalSchedule\<close> and \<^verbatim>\<open>lastUpdated\<close> set to the current time.
\<close>

theorem C8_load_degrades_to_fresh:
  assumes "(\<exists>e. readFile d = Inl e) \<or> (\<exists>t e. readFile d = Inr t \<and> JSON_parse t = Inl e)"
  shows "readData now d = JObj [(''medicalSchedule'', JObj []), (''lastUpdated'', JStr now)]"
  using assms by (auto simp: readData_def fresh_document_def)

theorem C8_load_degrades_to_fresh_witness:
  "readFile Absent = Inl Read_error
   \<and> readFile Unreadable = Inl Read_error
   \<and> readFile (File Garbage) = Inr Garbage \<and> JSON_parse Garbage = Inl Syntax_error
   \<and> readData ''t0'' Absent = JObj [(''medicalSchedule'', JObj []), (''lastUpdated'', JStr ''t0'')]
   \<and> readData ''t0'' Unreadable = JObj [(''medicalSchedule'', JObj []), (''lastUpdated'', JStr ''t0'')]
   \<and> readData ''t0'' (File Garbage)
       = JObj [(''medicalSchedule'', JObj []), (''lastUpdated'', JStr ''t0'')]"
  using C8_load_degrades_to_fresh [of Absent "''t0''"]
    C8_load_degrades_to_fresh [of Unreadable "''t0''"]
    C8_load_degrades_to_fresh [of "File Garbage" "''t0''"]
  by (simp add: readFile_def JSON_parse_def)

section \<open>The specialty labels\<close>





section \<open>Searching\<close>

text \<open>
  Claim C7, as the code has it. When the query is absent or shorter than two characters
  the reply is \<^verbatim>\<open>{success: true, results: []}\<close>, with an empty array, whatever the file
  holds and on every runtime, and the file is left as it is.
\<close>

theorem C7_short_query_empty_array:
  assumes "name' = None \<or> (\<exists>q. name' = Some q \<and> length q < 2)"
  shows "get_search_doctor rt now d name'
           = Returns (Ok (JObj [(''success'', JBool True), (''results'', JArr [])]), d)"
  using assms by (auto simp: get_search_doctor_def res_json_def)

theorem C7_short_query_empty_array_witness:
  "(\<forall>rt. get_search_doctor rt ''t0'' (File Garbage) None
      = Returns (Ok (JObj [(''success'', JBool True), (''results'', JArr [])]), File Garbage))
   \<and> length ''a'' < 2
   \<and> (\<forall>rt. get_search_doctor rt ''t0'' (File (Json_text JNull)) (Some ''a'')
      = Returns (Ok (JObj [(''success'', JBool True), (''results'', JArr [])]),
                 File (Json_text JNull)))"
  using C7_short_query_empty_array [of None _ "''t0''" "File Garbage"]
    C7_short_query_empty_array [of "Some ''a''" _ "''t0''" "File (Json_text JNull)"]
  by simp

text \<open>
  Claim C7, as the specification states it, fails: the reply to a short query does not
  carry the empty object \<^verbatim>\<open>{}\<close> as its \<^verbatim>\<open>results\<close>.
\<close>

theorem C7_counterexample:
  "get_search_doctor Pristine ''t0'' Absent (Some ''a'')
     \<noteq> Returns (Ok (JObj [(''success'', JBool True), (''results'', JObj [])]), Absent)"
  by (simp add: get_search_doctor_def res_json_def)




















text \<open>\<open>string_includes\<close> is containment as a substring.\<close>

lemma starts_with_iff: "starts_with s sub \<longleftrightarrow> (\<exists>post. s = sub @ post)"
  by (induction s sub rule: starts_with.induct) auto

lemma string_includes_iff: "string_includes s sub \<longleftrightarrow> (\<exists>pre post. s = pre @ sub @ post)"
proof (induction s)
  case Nil
  then show ?case by auto
next
  case (Cons x xs)
  show ?case
  proof
    assume "string_includes (x # xs) sub"
    then consider "starts_with (x # xs) sub" | "string_includes xs sub" by auto
    then show "\<exists>pre post. x # xs = pre @ sub @ post"
    proof cases
      case 1
      then obtain post where "x # xs = sub @ post" by (auto simp: starts_with_iff)
      then have "x # xs = [] @ sub @ post" by simp
      then show ?thesis by blast
    next
      case 2
      then obtain pre post where "xs = pre @ sub @ post" using Cons.IH by blast
      then have "x # xs = (x # pre) @ sub @ post" by simp
      then show ?thesis by blast
    qed
  next
    assume "\<exists>pre post. x # xs = pre @ sub @ post"
    then obtain pre post where eq: "x # xs = pre @ sub @ post" by blast
    show "string_includes (x # xs) sub"
    proof (cases pre)
      case Nil
      with eq have "starts_with (x # xs) sub" by (auto simp: starts_with_iff)
      then show ?thesis by simp
    next
      case (Cons y ys)
      with eq have "xs = ys @ sub @ post" by simp
      then have "string_includes xs sub" using Cons.IH by blast
      then show ?thesis by simp
    qed
  qed
qed

lemma name_matches_iff:
  "name_matches q doctor \<longleftrightarrow>
     (\<exists>n pre post. member_of doctor ''name'' = Some (JStr n) \<and> n \<noteq> []
        \<and> toLowerCase n = pre @ toLowerCase q @ post)"
  by (auto simp: name_matches_def doctor_name_def string_includes_iff
           split: option.splits json.splits)


text \<open>A key that is not an array index is enumerated after the keys already there.\<close>

lemma add_prop_appends: "\<not> is_array_index k \<Longrightarrow> add_prop kvs k v = kvs @ [(k, v)]"
  by (simp add: add_prop_def)





text \<open>
  Why the slot values are constrained: \<^verbatim>\<open>POST /api/schedule\<close> stores any truthy
  \<^verbatim>\<open>doctorData\<close>, and on a stored \<^verbatim>\<open>name\<close> that is a number the call of
  \<^verbatim>\<open>toLowerCase\<close> throws, so that the whole search replies 500.
\<close>

lemma search_fails_on_numeric_name:
  "get_search_doctor Pristine ''t1''
     (File (Json_text (JObj
        [(''medicalSchedule'',
          JObj [(''card_1'', JObj [(''Monday'',
             JObj [(''09:00'', JObj [(''name'', JStr ''Ana Souza'')]),
                   (''10:00'', JObj [(''name'', JNum (Finite 5))])])])])])))
     (Some ''ana'')
   = Returns (Failed 500 ''Erro na busca'',
      File (Json_text (JObj
        [(''medicalSchedule'',
          JObj [(''card_1'', JObj [(''Monday'',
             JObj [(''09:00'', JObj [(''name'', JStr ''Ana Souza'')]),
                   (''10:00'', JObj [(''name'', JNum (Finite 5))])])])])])))"
  by (simp add: get_search_doctor_def scan_def visit_def schedule_entry_def push_schedule_def
        toLowerCase_def lower_char_def upper_letters_def lower_letters_def getSpecialtyFromOfficeId_def specialtyMap_def
        office_prefix_def inherited_def object_prototype_names_def add_prop_def
        is_array_index_def is_digit_def res_json_def)

text \<open>
  On a tampered runtime the scan is not described, because \<^verbatim>\<open>for\<close>-\<^verbatim>\<open>in\<close> also
  enumerates what requests have added to \<^verbatim>\<open>Object.prototype\<close>: not even the search of
  an empty schedule has a result here.
\<close>

lemma search_tampered:
  "get_search_doctor Tampered ''t1''
     (File (Json_text (JObj [(''medicalSchedule'', JObj []), (''lastUpdated'', JStr ''t0'')])))
     (Some ''silva'') = Beyond"
  by (simp add: get_search_doctor_def scan_def)

end
